theory Spec2Isabelle
  imports Main
begin

section \<open>errors.py\<close>

text \<open>
  The exception classes of \<^verbatim>\<open>errors.py\<close>, with the builtin \<^verbatim>\<open>Exception\<close> that the two
  root classes derive from.
\<close>

datatype exc_class =
    Exception
  | ImageBuilderBaseError
  | BuilderSetupError
  | DependencyInstallError
  | NetworkBlockDeviceError
  | UnsupportedArchitectureError
  | CleanBuildStateError
  | BaseImageDownloadError
  | ImageResizeError
  | ImageMountError
  | ResizePartitionError
  | UnattendedUpgradeDisableError
  | SystemUserConfigurationError
  | PermissionConfigurationError
  | YQBuildError
  | YarnInstallError
  | ImageCompressError
  | BuildImageError
  | OpenstackBaseError
  | UnauthorizedError
  | UploadImageError
  | OpenstackError


text \<open>The classes that \<^verbatim>\<open>errors.py\<close> defines, in the order of the file.\<close>

definition errors_classes :: "exc_class list" where
  "errors_classes =
     [ImageBuilderBaseError, BuilderSetupError, DependencyInstallError, NetworkBlockDeviceError,
      UnsupportedArchitectureError, CleanBuildStateError, BaseImageDownloadError,
      ImageResizeError, ImageMountError, ResizePartitionError, UnattendedUpgradeDisableError,
      SystemUserConfigurationError, PermissionConfigurationError, YQBuildError,
      YarnInstallError, ImageCompressError, BuildImageError, OpenstackBaseError,
      UnauthorizedError, UploadImageError, OpenstackError]"





section \<open>Stages of the build pipeline\<close>





section \<open>Python exceptions as values\<close>

text \<open>
  Every \<^verbatim>\<open>raise\<close> of the modelled code is a value \<open>Inl e\<close> of a result type
  \<open>error + 'a\<close>. \<open>Raised c\<close> is an instance of a class of \<^verbatim>\<open>errors.py\<close>,
  \<open>CalledProcessError\<close> carries the exit status that \<^verbatim>\<open>subprocess.check_call\<close> found,
  \<open>SDKError\<close> stands for whatever the cloud SDK raises.
\<close>

datatype error =
    ValueError
  | TypeError
  | AttributeError
  | OSError
  | CalledProcessError int
  | SDKError
  | Raised exc_class

section \<open>Python strings\<close>

text \<open>
  A string is a list of bytes. \<^verbatim>\<open>str.lower\<close> is modelled on the ASCII letters and
  leaves every other byte alone; the only use in the code compares the result with
  "true", and no character outside ASCII has a lower case among the letters of "true".
\<close>

definition ascii_uppercase :: string where
  "ascii_uppercase = ''ABCDEFGHIJKLMNOPQRSTUVWXYZ''"

definition ascii_lowercase :: string where
  "ascii_lowercase = ''abcdefghijklmnopqrstuvwxyz''"

definition char_lower :: "char \<Rightarrow> char" where
  "char_lower c =
     (case map_of (zip ascii_uppercase ascii_lowercase) c of Some l \<Rightarrow> l | None \<Rightarrow> c)"

definition str_lower :: "string \<Rightarrow> string" where
  "str_lower s = map char_lower s"

text \<open>
  \<^verbatim>\<open>s.split(sep)\<close> for a separator of one character: the fields between the
  separators, empty fields kept, so the result is never empty.
\<close>

fun str_split :: "char \<Rightarrow> string \<Rightarrow> string list" where
  "str_split sep [] = [[]]"
| "str_split sep (c # cs) =
     (if c = sep then [] # str_split sep cs
      else (case str_split sep cs of [] \<Rightarrow> [[c]] | f # fs \<Rightarrow> (c # f) # fs))"

text \<open>\<^verbatim>\<open>str(b)\<close> for a bool.\<close>

definition str_of_bool :: "bool \<Rightarrow> string" where
  "str_of_bool b = (if b then ''True'' else ''False'')"

section \<open>config.py\<close>

subsection \<open>Arch\<close>

text \<open>\<^verbatim>\<open>class Arch(str, Enum)\<close> with the members \<^verbatim>\<open>ARM64 = "arm64"\<close> and \<^verbatim>\<open>X64 = "x64"\<close>.\<close>

datatype Arch = ARM64 | X64

fun Arch_value :: "Arch \<Rightarrow> string" where
  "Arch_value ARM64 = ''arm64''"
| "Arch_value X64 = ''x64''"

text \<open>
  \<^verbatim>\<open>Arch.to_openstack\<close>: the \<^verbatim>\<open>match\<close> tries \<^verbatim>\<open>Arch.ARM64\<close>, then \<^verbatim>\<open>Arch.X64\<close>, and the
  statement after the \<^verbatim>\<open>match\<close> raises \<^verbatim>\<open>ValueError\<close>.
\<close>

definition to_openstack :: "Arch \<Rightarrow> error + string" where
  "to_openstack self =
     (if self = ARM64 then Inr ''aarch64''
      else if self = X64 then Inr ''x86_64''
      else Inl ValueError)"

definition ARCHITECTURES_ARM64 :: "string set" where
  "ARCHITECTURES_ARM64 = {''aarch64'', ''arm64''}"

definition ARCHITECTURES_X86 :: "string set" where
  "ARCHITECTURES_X86 = {''x86_64''}"

text \<open>
  \<^verbatim>\<open>get_supported_arch\<close> reads \<^verbatim>\<open>platform.machine()\<close>; the host's answer is the
  parameter \<open>machine\<close>.
\<close>

definition get_supported_arch :: "string \<Rightarrow> error + Arch" where
  "get_supported_arch machine =
     (if machine \<in> ARCHITECTURES_ARM64 then Inr ARM64
      else if machine \<in> ARCHITECTURES_X86 then Inr X64
      else Inl (Raised UnsupportedArchitectureError))"

subsection \<open>BaseImage\<close>

datatype BaseImage = JAMMY | NOBLE

fun BaseImage_value :: "BaseImage \<Rightarrow> string" where
  "BaseImage_value JAMMY = ''jammy''"
| "BaseImage_value NOBLE = ''noble''"

text \<open>
  The enum call \<^verbatim>\<open>BaseImage(v)\<close> looks a member up by its value and raises
  \<^verbatim>\<open>ValueError\<close> when no member has it.
\<close>

definition BaseImage_call :: "string \<Rightarrow> error + BaseImage" where
  "BaseImage_call v =
     (if v = BaseImage_value JAMMY then Inr JAMMY
      else if v = BaseImage_value NOBLE then Inr NOBLE
      else Inl ValueError)"

fun get_version :: "BaseImage \<Rightarrow> string" where
  "get_version JAMMY = ''22.04''"
| "get_version NOBLE = ''24.04''"

definition LTS_IMAGE_VERSION_TAG_MAP :: "(string \<times> string) list" where
  "LTS_IMAGE_VERSION_TAG_MAP =
     [(''22.04'', BaseImage_value JAMMY), (''24.04'', BaseImage_value NOBLE)]"

definition BaseImage_from_str :: "string \<Rightarrow> error + BaseImage" where
  "BaseImage_from_str tag_or_name =
     (case map_of LTS_IMAGE_VERSION_TAG_MAP tag_or_name of
        Some v \<Rightarrow> BaseImage_call v
      | None \<Rightarrow> BaseImage_call tag_or_name)"

text \<open>\<^verbatim>\<open>BASE_CHOICES\<close> chains the (tag, name) pairs of the map.\<close>

definition BASE_CHOICES :: "string list" where
  "BASE_CHOICES = concat (map (\<lambda>(tag, name). [tag, name]) LTS_IMAGE_VERSION_TAG_MAP)"

subsection \<open>Snap\<close>

record Snap =
  name :: string
  channel :: string
  classic :: bool

definition Snap_from_str :: "string \<Rightarrow> error + Snap" where
  "Snap_from_str v =
     (let values = str_split CHR '':'' v in
      if length values < 2 then Inl ValueError
      else if length values = 2 then
        Inr \<lparr>name = values ! 0, channel = values ! 1, classic = False\<rparr>
      else
        Inr \<lparr>name = values ! 0, channel = values ! 1,
             classic = (str_lower (values ! 2) = ''true'')\<rparr>)"

definition to_string :: "Snap \<Rightarrow> string" where
  "to_string self =
     name self @ '':'' @ channel self @ '':'' @ str_lower (str_of_bool (classic self))"

subsection \<open>ImageConfig\<close>

text \<open>
  Python values that are passed to the dataclass. A dataclass stores what it is given
  and checks no annotation, so the fields hold values of this type.
\<close>

datatype pyval =
    VArch Arch
  | VBase BaseImage
  | VStr string
  | VSnaps "Snap list"

text \<open>
  The fields of the dataclass, in the order of the class body; none has a default.
  (The field names carry a prefix here: \<open>name\<close> is a field of \<open>Snap\<close> already.)
\<close>

record ImageConfig =
  cfg_arch :: pyval
  cfg_base :: pyval
  cfg_runner_version :: pyval
  cfg_name :: pyval
  cfg_snaps :: pyval

definition ImageConfig_fields :: "string list" where
  "ImageConfig_fields = [''arch'', ''base'', ''runner_version'', ''name'', ''snaps'']"

text \<open>
  A call with keyword arguments only, of a function whose parameters all lack a
  default: a keyword that names no parameter raises \<^verbatim>\<open>TypeError\<close>, and so does a
  parameter that no keyword names.
\<close>

definition bind_keywords :: "string list \<Rightarrow> (string \<times> 'v) list \<Rightarrow> error + (string \<Rightarrow> 'v option)" where
  "bind_keywords params kwargs =
     (if \<not> list_all (\<lambda>k. k \<in> set params) (map fst kwargs) then Inl TypeError
      else if \<not> list_all (\<lambda>p. p \<in> set (map fst kwargs)) params then Inl TypeError
      else Inr (map_of kwargs))"

text \<open>
  The generated \<^verbatim>\<open>__init__\<close> of the dataclass, called with keywords. Once the
  keywords are bound every field has a value, so the last case is never taken.
\<close>

definition ImageConfig_init :: "(string \<times> pyval) list \<Rightarrow> error + ImageConfig" where
  "ImageConfig_init kwargs =
     (case bind_keywords ImageConfig_fields kwargs of
        Inl e \<Rightarrow> Inl e
      | Inr args \<Rightarrow>
          (case (args ''arch'', args ''base'', args ''runner_version'', args ''name'',
                 args ''snaps'') of
             (Some a, Some b, Some r, Some n, Some s) \<Rightarrow>
               Inr \<lparr>cfg_arch = a, cfg_base = b, cfg_runner_version = r, cfg_name = n,
                    cfg_snaps = s\<rparr>
           | _ \<Rightarrow> Inl TypeError))"

section \<open>openstack-builder module\<close>

text \<open>
  The cloud SDK is an opaque capability. Its objects carry an identifier; its
  operations act on a cloud state \<open>'c\<close> and may raise. A snapshot is taken of a
  server: the operation takes the image name and the server, both required (spec
  section 6 has \<^verbatim>\<open>create_image_snapshot(handle, name)\<close>, the SDK's connection has
  \<^verbatim>\<open>create_image_snapshot(name, server, ...)\<close>). \<open>sdk_delete_server\<close> is the capability
  to delete a VM, which the SDK offers.
\<close>

record Server =
  server_id :: string

record Image =
  image_id :: string

record 'c sdk =
  sdk_connect :: "string \<Rightarrow> 'c \<Rightarrow> (error + unit) \<times> 'c"
  sdk_create_server ::
    "string option \<Rightarrow> string \<Rightarrow> string \<Rightarrow> Arch \<Rightarrow> BaseImage \<Rightarrow> 'c \<Rightarrow> (error + Server) \<times> 'c"
  sdk_create_image_snapshot :: "string \<Rightarrow> Server \<Rightarrow> 'c \<Rightarrow> (error + Image) \<times> 'c"
  sdk_delete_server :: "Server \<Rightarrow> 'c \<Rightarrow> (error + unit) \<times> 'c"
  sdk_close :: "'c \<Rightarrow> 'c"

text \<open>Values passed positionally to an operation of the SDK.\<close>

datatype sdk_arg = ArgStr string | ArgServer Server

definition create_image_snapshot_required :: "string list" where
  "create_image_snapshot_required = [''name'', ''server'']"

text \<open>
  A positional call of \<^verbatim>\<open>conn.create_image_snapshot\<close>: with fewer arguments than the
  required parameters Python raises \<^verbatim>\<open>TypeError\<close> before the operation starts, and the
  cloud is left as it was. Otherwise the first two arguments are the name and the
  server.
\<close>

definition call_create_image_snapshot ::
  "'c sdk \<Rightarrow> sdk_arg list \<Rightarrow> 'c \<Rightarrow> (error + Image) \<times> 'c" where
  "call_create_image_snapshot api args c =
     (if length args < length create_image_snapshot_required then (Inl TypeError, c)
      else (case args of
              ArgStr image_name # ArgServer server # rest \<Rightarrow>
                sdk_create_image_snapshot api image_name server c
            | _ \<Rightarrow> (Inl TypeError, c)))"

text \<open>The calls that \<^verbatim>\<open>run\<close> makes, logged in the order it makes them.\<close>

datatype call =
    GenerateInstallationScript string
  | Connect string
  | CreateServer "string option" string string Arch BaseImage
  | WaitForInstallComplete Server
  | CreateImageSnapshot "sdk_arg list"
  | DeleteServer Server
  | Close

text \<open>
  The two helpers have the body \<^verbatim>\<open>pass\<close>: \<^verbatim>\<open>_generate_installation_script\<close> returns
  \<^verbatim>\<open>None\<close> and \<^verbatim>\<open>_wait_for_install_complete\<close> returns at once.
\<close>

definition generate_installation_script :: "string \<Rightarrow> string option" where
  "generate_installation_script runner_version = None"

definition wait_for_install_complete :: "Server \<Rightarrow> unit" where
  "wait_for_install_complete server = ()"

text \<open>
  \<^verbatim>\<open>run\<close>. The \<^verbatim>\<open>with\<close> block closes the connection on every way out of its body;
  the snapshot's \<^verbatim>\<open>id\<close> is returned after the block. Line 109 passes the image name
  to \<^verbatim>\<open>conn.create_image_snapshot\<close> and nothing else.
\<close>

definition openstack_builder_run ::
  "'c sdk \<Rightarrow> Arch \<Rightarrow> BaseImage \<Rightarrow> string \<Rightarrow> string \<Rightarrow> string \<Rightarrow> string \<Rightarrow> string \<Rightarrow> 'c
     \<Rightarrow> (error + string) \<times> call list \<times> 'c" where
  "openstack_builder_run api arch base cloud_name flavor network runner_version image_name c0 =
     (let installation_script = generate_installation_script runner_version;
          log0 = [GenerateInstallationScript runner_version, Connect cloud_name]
      in case sdk_connect api cloud_name c0 of
           (Inl e, c1) \<Rightarrow> (Inl e, log0, c1)
         | (Inr conn, c1) \<Rightarrow>
            (let log1 = log0 @ [CreateServer installation_script flavor network arch base]
             in case sdk_create_server api installation_script flavor network arch base c1 of
                  (Inl e, c2) \<Rightarrow> (Inl e, log1 @ [Close], sdk_close api c2)
                | (Inr builder, c2) \<Rightarrow>
                   (let waited = wait_for_install_complete builder;
                        log2 = log1 @ [WaitForInstallComplete builder,
                                       CreateImageSnapshot [ArgStr image_name]]
                    in case call_create_image_snapshot api [ArgStr image_name] c2 of
                         (Inl e, c3) \<Rightarrow> (Inl e, log2 @ [Close], sdk_close api c3)
                       | (Inr img, c3) \<Rightarrow>
                           (Inr (image_id img), log2 @ [Close], sdk_close api c3))))"


section \<open>cli.py\<close>

text \<open>The parameters of the \<^verbatim>\<open>run\<close> command, as click passes them.\<close>

record run_args =
  arg_arch :: "Arch option"
  arg_cloud_name :: string
  arg_image_name :: string
  arg_base_image :: string
  arg_keep_revisions :: int
  arg_callback_script :: "string option"
  arg_runner_version :: string
  arg_experimental_external :: bool
  arg_flavor :: string
  arg_juju :: string
  arg_network :: string
  arg_prefix :: string
  arg_proxy :: string
  arg_upload_clouds :: string

text \<open>What the operating system answers when asked to run a command.\<close>

datatype proc_result = NotStarted | Exited int

text \<open>
  The world around the command: the host's machine type, the local builder
  (\<^verbatim>\<open>builder.run\<close>, a module that is not among the sources, so its result is a
  parameter), and the execution of external commands.
\<close>

record cli_env =
  machine :: string
  builder_run :: "string \<Rightarrow> ImageConfig \<Rightarrow> int \<Rightarrow> error + string"
  spawn :: "string list \<Rightarrow> proc_result"

datatype event =
    BuilderRun string ImageConfig int
  | Echo string
  | Exec "string list"

text \<open>
  \<^verbatim>\<open>subprocess.check_call\<close> runs the command and waits for it: exit status 0 returns 0,
  any other status raises \<^verbatim>\<open>CalledProcessError\<close>, a command that cannot be started
  raises \<^verbatim>\<open>OSError\<close>.
\<close>

definition check_call :: "(string list \<Rightarrow> proc_result) \<Rightarrow> string list \<Rightarrow> error + int" where
  "check_call exec argv =
     (case exec argv of
        NotStarted \<Rightarrow> Inl OSError
      | Exited rc \<Rightarrow> if rc = 0 then Inr 0 else Inl (CalledProcessError rc))"

text \<open>
  Lines 216 to 258 of \<^verbatim>\<open>run\<close>: everything up to the echo of the image ids. On the
  external branch the first argument of the call is \<^verbatim>\<open>openstack_builder.CloudConfig(...)\<close>;
  the module defines no such name, so the lookup raises \<^verbatim>\<open>AttributeError\<close> (the list
  comprehension before it is pure and cannot raise).
\<close>

definition run_build :: "cli_env \<Rightarrow> run_args \<Rightarrow> (error + string) \<times> event list" where
  "run_build env a =
     (case (case arg_arch a of Some given \<Rightarrow> Inr given | None \<Rightarrow> get_supported_arch (machine env)) of
        Inl e \<Rightarrow> (Inl e, [])
      | Inr arch \<Rightarrow>
         (case BaseImage_from_str (arg_base_image a) of
            Inl e \<Rightarrow> (Inl e, [])
          | Inr base \<Rightarrow>
             if \<not> arg_experimental_external a then
               (case ImageConfig_init
                       [(''arch'', VArch arch), (''base'', VBase base), (''juju'', VStr (arg_juju a)),
                        (''runner_version'', VStr (arg_runner_version a)),
                        (''name'', VStr (arg_image_name a))] of
                  Inl e \<Rightarrow> (Inl e, [])
                | Inr image_config \<Rightarrow>
                   (case builder_run env (arg_cloud_name a) image_config (arg_keep_revisions a) of
                      Inl e \<Rightarrow> (Inl e, [BuilderRun (arg_cloud_name a) image_config (arg_keep_revisions a)])
                    | Inr image_ids \<Rightarrow>
                        (Inr image_ids,
                         [BuilderRun (arg_cloud_name a) image_config (arg_keep_revisions a),
                          Echo image_ids])))
             else (Inl AttributeError, [])))"

text \<open>
  Lines 259 to 261: the callback. \<^verbatim>\<open>if callback_script:\<close> is false for \<^verbatim>\<open>None\<close> and
  for the empty string.
\<close>

definition run_callback :: "cli_env \<Rightarrow> string option \<Rightarrow> string \<Rightarrow> (error + unit) \<times> event list" where
  "run_callback env callback_script image_ids =
     (case callback_script of
        None \<Rightarrow> (Inr (), [])
      | Some script \<Rightarrow>
          if script = [] then (Inr (), [])
          else (case check_call (spawn env) [script, image_ids] of
                  Inl e \<Rightarrow> (Inl e, [Exec [script, image_ids]])
                | Inr rc \<Rightarrow> (Inr (), [Exec [script, image_ids]])))"

definition run :: "cli_env \<Rightarrow> run_args \<Rightarrow> (error + unit) \<times> event list" where
  "run env a =
     (case run_build env a of
        (Inl e, events) \<Rightarrow> (Inl e, events)
      | (Inr image_ids, events) \<Rightarrow>
          (case run_callback env (arg_callback_script a) image_ids of
             (result, events') \<Rightarrow> (result, events @ events')))"

text \<open>Worlds and arguments for evaluation.\<close>

definition passing_callback_env :: cli_env where
  "passing_callback_env =
     \<lparr>machine = ''x86_64'', builder_run = (\<lambda>cloud config keep. Inr ''image-1''),
      spawn = (\<lambda>argv. Exited 0)\<rparr>"

definition local_args :: run_args where
  "local_args =
     \<lparr>arg_arch = None, arg_cloud_name = ''cloud'', arg_image_name = ''runner-image'',
      arg_base_image = ''noble'', arg_keep_revisions = 5,
      arg_callback_script = Some ''./callback.sh'', arg_runner_version = [],
      arg_experimental_external = False, arg_flavor = [], arg_juju = [], arg_network = [],
      arg_prefix = [], arg_proxy = [], arg_upload_clouds = []\<rparr>"


section \<open>Properties of config.py\<close>

text \<open>
  C7. \<^verbatim>\<open>Arch.to_openstack\<close> is total on the enumeration: \<open>ARM64\<close> gives "aarch64",
  \<open>X64\<close> gives "x86_64", and no member reaches the trailing \<^verbatim>\<open>raise ValueError\<close>.
\<close>

theorem to_openstack_total:
  "to_openstack ARM64 = Inr ''aarch64'' \<and> to_openstack X64 = Inr ''x86_64'' \<and>
   to_openstack a \<noteq> Inl ValueError \<and> (\<exists>s. to_openstack a = Inr s)"
  by (cases a) (simp_all add: to_openstack_def)

theorem to_openstack_total_witness:
  "to_openstack X64 \<noteq> Inl ValueError \<and> to_openstack X64 = Inr ''x86_64''"
  using to_openstack_total [of X64] by simp

text \<open>
  C5. \<^verbatim>\<open>get_supported_arch\<close> returns \<open>ARM64\<close> for the machine types "aarch64" and
  "arm64", \<open>X64\<close> for "x86_64", and raises \<^verbatim>\<open>UnsupportedArchitectureError\<close> for every
  other machine string; it raises exactly when the machine type is none of the three.
\<close>

theorem get_supported_arch_cases:
  "(m = ''aarch64'' \<or> m = ''arm64'' \<longrightarrow> get_supported_arch m = Inr ARM64) \<and>
   (m = ''x86_64'' \<longrightarrow> get_supported_arch m = Inr X64) \<and>
   (m \<notin> {''aarch64'', ''arm64'', ''x86_64''} \<longrightarrow>
      get_supported_arch m = Inl (Raised UnsupportedArchitectureError)) \<and>
   ((\<exists>e. get_supported_arch m = Inl e) \<longleftrightarrow> m \<notin> {''aarch64'', ''arm64'', ''x86_64''})"
  by (auto simp: get_supported_arch_def ARCHITECTURES_ARM64_def ARCHITECTURES_X86_def)

theorem get_supported_arch_cases_witness:
  "get_supported_arch ''aarch64'' = Inr ARM64 \<and>
   get_supported_arch ''arm64'' = Inr ARM64 \<and>
   get_supported_arch ''x86_64'' = Inr X64 \<and>
   get_supported_arch ''riscv64'' = Inl (Raised UnsupportedArchitectureError)"
  using get_supported_arch_cases [of "''aarch64''"] get_supported_arch_cases [of "''arm64''"]
    get_supported_arch_cases [of "''x86_64''"] get_supported_arch_cases [of "''riscv64''"]
  by simp

text \<open>
  C4. \<^verbatim>\<open>BaseImage.from_str\<close> normalises both external forms: for every base, its
  codename and its version tag parse to that same base, so the tag that
  \<^verbatim>\<open>get_version\<close> gives for a parsed value parses back to the value.
\<close>

theorem BaseImage_from_str_inverse:
  "BaseImage_from_str (BaseImage_value b) = Inr b \<and>
   BaseImage_from_str (get_version b) = Inr b \<and>
   BaseImage_from_str ''jammy'' = Inr JAMMY \<and> BaseImage_from_str ''22.04'' = Inr JAMMY \<and>
   BaseImage_from_str ''noble'' = Inr NOBLE \<and> BaseImage_from_str ''24.04'' = Inr NOBLE"
  by (cases b)
    (simp_all add: BaseImage_from_str_def BaseImage_call_def LTS_IMAGE_VERSION_TAG_MAP_def)

theorem BaseImage_from_str_inverse_witness:
  "BaseImage_from_str (BaseImage_value NOBLE) = Inr NOBLE \<and>
   BaseImage_from_str (get_version NOBLE) = Inr NOBLE"
  using BaseImage_from_str_inverse [of NOBLE] by simp

section \<open>Properties of the string functions\<close>

lemma str_split_not_Nil: "str_split sep s \<noteq> []"
  by (induction s) (auto split: list.splits)

lemma str_split_field:
  "sep \<notin> set a \<Longrightarrow> str_split sep (a @ sep # rest) = a # str_split sep rest"
  by (induction a) auto

lemma str_split_single: "sep \<notin> set a \<Longrightarrow> str_split sep a = [a]"
  by (induction a) auto

lemma length_str_split: "length (str_split sep s) = Suc (count_list s sep)"
  by (induction s) (auto split: list.splits simp: str_split_not_Nil)

lemma str_split_fields_no_sep: "f \<in> set (str_split sep s) \<Longrightarrow> sep \<notin> set f"
  by (induction s arbitrary: f) (auto split: if_splits list.splits)

text \<open>
  The fields are what lies between the separators: a string with a separator is its
  first field, the separator and the rest, and a string has exactly two fields when it
  is two separator-free strings around one separator.
\<close>

lemma str_split_decompose:
  assumes "sep \<in> set s"
  shows "\<exists>a rest. s = a @ sep # rest \<and> sep \<notin> set a \<and>
           str_split sep s = a # str_split sep rest"
proof -
  from split_list_first [OF assms] obtain a rest where "s = a @ sep # rest" "sep \<notin> set a"
    by blast
  then show ?thesis using str_split_field [of sep a rest] by blast
qed

lemma str_split_two_iff:
  "length (str_split sep s) = 2 \<longleftrightarrow>
     (\<exists>a b. s = a @ sep # b \<and> sep \<notin> set a \<and> sep \<notin> set b)"
proof
  assume len: "length (str_split sep s) = 2"
  then have "count_list s sep \<noteq> 0" by (simp add: length_str_split)
  then have "sep \<in> set s" by (simp add: count_list_0_iff)
  from str_split_decompose [OF this] obtain a b where
    s: "s = a @ sep # b" "sep \<notin> set a" "str_split sep s = a # str_split sep b"
    by blast
  with len have "length (str_split sep b) = 1" by simp
  then have "sep \<notin> set b" by (simp add: length_str_split count_list_0_iff)
  with s show "\<exists>a b. s = a @ sep # b \<and> sep \<notin> set a \<and> sep \<notin> set b" by blast
next
  assume "\<exists>a b. s = a @ sep # b \<and> sep \<notin> set a \<and> sep \<notin> set b"
  then show "length (str_split sep s) = 2"
    by (auto simp: str_split_field str_split_single)
qed

lemma char_lower_other: "c \<notin> set ascii_uppercase \<Longrightarrow> char_lower c = c"
  unfolding char_lower_def ascii_uppercase_def ascii_lowercase_def
  by simp

lemma char_lower_cases:
  assumes "c \<in> set ascii_uppercase"
  shows "(char_lower c = CHR ''t'' \<longleftrightarrow> c = CHR ''T'') \<and>
         (char_lower c = CHR ''r'' \<longleftrightarrow> c = CHR ''R'') \<and>
         (char_lower c = CHR ''u'' \<longleftrightarrow> c = CHR ''U'') \<and>
         (char_lower c = CHR ''e'' \<longleftrightarrow> c = CHR ''E'')"
  using assms unfolding char_lower_def ascii_uppercase_def ascii_lowercase_def
  by (elim disjE | simp)+

lemma char_lower_t: "char_lower c = CHR ''t'' \<longleftrightarrow> c = CHR ''t'' \<or> c = CHR ''T''"
proof (cases "c \<in> set ascii_uppercase")
  case True
  then have "c \<noteq> CHR ''t''" by (auto simp: ascii_uppercase_def)
  with char_lower_cases [OF True] show ?thesis by simp
next
  case False
  then have "c \<noteq> CHR ''T''" by (auto simp: ascii_uppercase_def)
  with char_lower_other [OF False] show ?thesis by simp
qed

lemma char_lower_r: "char_lower c = CHR ''r'' \<longleftrightarrow> c = CHR ''r'' \<or> c = CHR ''R''"
proof (cases "c \<in> set ascii_uppercase")
  case True
  then have "c \<noteq> CHR ''r''" by (auto simp: ascii_uppercase_def)
  with char_lower_cases [OF True] show ?thesis by simp
next
  case False
  then have "c \<noteq> CHR ''R''" by (auto simp: ascii_uppercase_def)
  with char_lower_other [OF False] show ?thesis by simp
qed

lemma char_lower_u: "char_lower c = CHR ''u'' \<longleftrightarrow> c = CHR ''u'' \<or> c = CHR ''U''"
proof (cases "c \<in> set ascii_uppercase")
  case True
  then have "c \<noteq> CHR ''u''" by (auto simp: ascii_uppercase_def)
  with char_lower_cases [OF True] show ?thesis by simp
next
  case False
  then have "c \<noteq> CHR ''U''" by (auto simp: ascii_uppercase_def)
  with char_lower_other [OF False] show ?thesis by simp
qed

lemma char_lower_e: "char_lower c = CHR ''e'' \<longleftrightarrow> c = CHR ''e'' \<or> c = CHR ''E''"
proof (cases "c \<in> set ascii_uppercase")
  case True
  then have "c \<noteq> CHR ''e''" by (auto simp: ascii_uppercase_def)
  with char_lower_cases [OF True] show ?thesis by simp
next
  case False
  then have "c \<noteq> CHR ''E''" by (auto simp: ascii_uppercase_def)
  with char_lower_other [OF False] show ?thesis by simp
qed

text \<open>
  Lower-casing gives "true" exactly for the sixteen spellings of the word in upper and
  lower case letters.
\<close>

lemma str_lower_true:
  "str_lower s = ''true'' \<longleftrightarrow>
     (\<exists>c1 c2 c3 c4. s = [c1, c2, c3, c4] \<and> c1 \<in> {CHR ''t'', CHR ''T''} \<and>
        c2 \<in> {CHR ''r'', CHR ''R''} \<and> c3 \<in> {CHR ''u'', CHR ''U''} \<and>
        c4 \<in> {CHR ''e'', CHR ''E''})"
  (is "?lhs \<longleftrightarrow> ?rhs")
proof
  assume ?lhs
  then obtain c1 c2 c3 c4 where s: "s = [c1, c2, c3, c4]"
    and l: "char_lower c1 = CHR ''t''" "char_lower c2 = CHR ''r''"
      "char_lower c3 = CHR ''u''" "char_lower c4 = CHR ''e''"
    unfolding str_lower_def by (auto simp: map_eq_Cons_conv)
  from l show ?rhs
    unfolding s char_lower_t char_lower_r char_lower_u char_lower_e by blast
next
  assume ?rhs
  then obtain c1 c2 c3 c4 where s: "s = [c1, c2, c3, c4]"
    and l: "char_lower c1 = CHR ''t''" "char_lower c2 = CHR ''r''"
      "char_lower c3 = CHR ''u''" "char_lower c4 = CHR ''e''"
    unfolding char_lower_t char_lower_r char_lower_u char_lower_e by blast
  show ?lhs unfolding s str_lower_def using l by simp
qed

lemma str_lower_of_bool: "str_lower (str_lower (str_of_bool b)) = ''true'' \<longleftrightarrow> b"
  by (simp add: str_of_bool_def str_lower_def char_lower_def ascii_uppercase_def
      ascii_lowercase_def)

lemma str_of_bool_no_colon: "CHR '':'' \<notin> set (str_lower (str_of_bool b))"
  by (simp add: str_of_bool_def str_lower_def char_lower_def ascii_uppercase_def
      ascii_lowercase_def)

section \<open>Properties of Snap\<close>

lemma split_two_fields:
  assumes "CHR '':'' \<notin> set a" "CHR '':'' \<notin> set b"
  shows "str_split CHR '':'' (a @ '':'' @ b) = [a, b]"
  using assms by (simp add: str_split_field str_split_single)

lemma split_leading_fields:
  assumes "CHR '':'' \<notin> set a" "CHR '':'' \<notin> set b"
  shows "str_split CHR '':'' (a @ '':'' @ b @ '':'' @ rest) = a # b # str_split CHR '':'' rest"
  using assms by (simp add: str_split_field)

lemma from_str_two:
  assumes "CHR '':'' \<notin> set a" "CHR '':'' \<notin> set b"
  shows "Snap_from_str (a @ '':'' @ b) = Inr \<lparr>name = a, channel = b, classic = False\<rparr>"
  unfolding Snap_from_str_def split_two_fields [OF assms] by simp

lemma from_str_three_or_more:
  assumes "CHR '':'' \<notin> set a" "CHR '':'' \<notin> set b" "str_split CHR '':'' rest = c # others"
  shows "Snap_from_str (a @ '':'' @ b @ '':'' @ rest) =
           Inr \<lparr>name = a, channel = b, classic = (str_lower c = ''true'')\<rparr>"
  unfolding Snap_from_str_def split_leading_fields [OF assms(1,2)] assms(3) by simp

lemma from_str_no_colon:
  assumes "CHR '':'' \<notin> set s"
  shows "Snap_from_str s = Inl ValueError"
  unfolding Snap_from_str_def str_split_single [OF assms] by simp

lemma from_str_fields_no_colon:
  assumes "Snap_from_str v = Inr s"
  shows "CHR '':'' \<notin> set (name s) \<and> CHR '':'' \<notin> set (channel s)"
proof -
  let ?vs = "str_split CHR '':'' v"
  from assms have len: "2 \<le> length ?vs" and n: "name s = ?vs ! 0" and c: "channel s = ?vs ! 1"
    by (auto simp: Snap_from_str_def Let_def split: if_splits)
  from len have "0 < length ?vs" "1 < length ?vs" by linarith+
  then have "?vs ! 0 \<in> set ?vs" "?vs ! 1 \<in> set ?vs" by (simp_all only: nth_mem)
  then show ?thesis unfolding n c by (blast dest: str_split_fields_no_sep)
qed

lemma to_string_parses:
  assumes "CHR '':'' \<notin> set (name s)" "CHR '':'' \<notin> set (channel s)"
  shows "Snap_from_str (to_string s) = Inr s"
proof -
  have "str_split CHR '':'' (str_lower (str_of_bool (classic s))) =
          [str_lower (str_of_bool (classic s))]"
    by (rule str_split_single) (rule str_of_bool_no_colon)
  from from_str_three_or_more [OF assms this]
  show ?thesis by (simp add: to_string_def str_lower_of_bool)
qed

text \<open>
  C3. Parsing a snap: two colon-delimited fields give name, channel and
  \<open>classic = False\<close>; three fields give \<open>classic = True\<close> exactly when the third
  field is "true" written in any mix of upper and lower case; a string without a colon
  (fewer than two fields) raises \<^verbatim>\<open>ValueError\<close>.
\<close>

theorem Snap_from_str_fields:
  "(CHR '':'' \<notin> set a \<and> CHR '':'' \<notin> set b \<longrightarrow>
      Snap_from_str (a @ '':'' @ b) = Inr \<lparr>name = a, channel = b, classic = False\<rparr>) \<and>
   (CHR '':'' \<notin> set a \<and> CHR '':'' \<notin> set b \<and> CHR '':'' \<notin> set c \<longrightarrow>
      Snap_from_str (a @ '':'' @ b @ '':'' @ c) =
        Inr \<lparr>name = a, channel = b,
             classic = (\<exists>c1 c2 c3 c4. c = [c1, c2, c3, c4] \<and> c1 \<in> {CHR ''t'', CHR ''T''} \<and>
                c2 \<in> {CHR ''r'', CHR ''R''} \<and> c3 \<in> {CHR ''u'', CHR ''U''} \<and>
                c4 \<in> {CHR ''e'', CHR ''E''})\<rparr>) \<and>
   (CHR '':'' \<notin> set s \<longrightarrow> Snap_from_str s = Inl ValueError) \<and>
   (length (str_split CHR '':'' s) < 2 \<longleftrightarrow> CHR '':'' \<notin> set s)"
proof (intro conjI impI)
  assume "CHR '':'' \<notin> set a \<and> CHR '':'' \<notin> set b"
  then show "Snap_from_str (a @ '':'' @ b) = Inr \<lparr>name = a, channel = b, classic = False\<rparr>"
    using from_str_two [of a b] by simp
next
  assume h: "CHR '':'' \<notin> set a \<and> CHR '':'' \<notin> set b \<and> CHR '':'' \<notin> set c"
  then have "str_split CHR '':'' c = [c]" by (simp add: str_split_single)
  with h have "Snap_from_str (a @ '':'' @ b @ '':'' @ c) =
      Inr \<lparr>name = a, channel = b, classic = (str_lower c = ''true'')\<rparr>"
    using from_str_three_or_more [of a b c c "[]"] by simp
  then show "Snap_from_str (a @ '':'' @ b @ '':'' @ c) =
        Inr \<lparr>name = a, channel = b,
             classic = (\<exists>c1 c2 c3 c4. c = [c1, c2, c3, c4] \<and> c1 \<in> {CHR ''t'', CHR ''T''} \<and>
                c2 \<in> {CHR ''r'', CHR ''R''} \<and> c3 \<in> {CHR ''u'', CHR ''U''} \<and>
                c4 \<in> {CHR ''e'', CHR ''E''})\<rparr>"
    unfolding str_lower_true .
next
  assume "CHR '':'' \<notin> set s"
  then show "Snap_from_str s = Inl ValueError" by (rule from_str_no_colon)
next
  show "length (str_split CHR '':'' s) < 2 \<longleftrightarrow> CHR '':'' \<notin> set s"
    unfolding length_str_split by (simp add: count_list_0_iff)
qed

theorem Snap_from_str_fields_witness:
  "Snap_from_str ''aws-cli:latest/edge'' =
     Inr \<lparr>name = ''aws-cli'', channel = ''latest/edge'', classic = False\<rparr> \<and>
   Snap_from_str ''aws-cli:latest/edge:TrUe'' =
     Inr \<lparr>name = ''aws-cli'', channel = ''latest/edge'', classic = True\<rparr> \<and>
   Snap_from_str ''aws-cli:latest/edge:yes'' =
     Inr \<lparr>name = ''aws-cli'', channel = ''latest/edge'', classic = False\<rparr> \<and>
   Snap_from_str ''aws-cli'' = Inl ValueError"
  using Snap_from_str_fields [of "''aws-cli''" "''latest/edge''" "''TrUe''" "''aws-cli''"]
    Snap_from_str_fields [of "''aws-cli''" "''latest/edge''" "''yes''" "''aws-cli''"]
  by simp

text \<open>
  C8. Formatting and parsing round-trip: a snap whose name and channel contain no colon
  is parsed back from its \<^verbatim>\<open>to_string\<close> output unchanged, and every snap that
  \<^verbatim>\<open>Snap.from_str\<close> returns is such a snap.
\<close>

theorem Snap_round_trip:
  "(CHR '':'' \<notin> set (name s) \<and> CHR '':'' \<notin> set (channel s) \<longrightarrow>
      Snap_from_str (to_string s) = Inr s) \<and>
   (Snap_from_str v = Inr s \<longrightarrow> Snap_from_str (to_string s) = Inr s)"
  using to_string_parses [of s] from_str_fields_no_colon [of v s] by blast

theorem Snap_round_trip_witness:
  "Snap_from_str (to_string \<lparr>name = ''juju'', channel = ''3.1/stable'', classic = True\<rparr>) =
     Inr \<lparr>name = ''juju'', channel = ''3.1/stable'', classic = True\<rparr> \<and>
   Snap_from_str ''juju:3.1/stable:TRUE:x'' =
     Inr \<lparr>name = ''juju'', channel = ''3.1/stable'', classic = True\<rparr>"
  using Snap_round_trip [of "\<lparr>name = ''juju'', channel = ''3.1/stable'', classic = True\<rparr>"
      "''juju:3.1/stable:TRUE:x''"]
  by (simp add: Snap_from_str_def str_lower_def char_lower_def ascii_uppercase_def
      ascii_lowercase_def)

text \<open>
  C9. Over-long inputs are accepted: with four or more colon-delimited fields the
  parse succeeds, uses the first three fields only and gives the same snap as the
  first three fields alone; whatever follows the third field is ignored.
\<close>

theorem Snap_from_str_ignores_extra_fields:
  "CHR '':'' \<notin> set a \<and> CHR '':'' \<notin> set b \<and> CHR '':'' \<notin> set c \<longrightarrow>
     Snap_from_str (a @ '':'' @ b @ '':'' @ c @ '':'' @ rest) =
       Inr \<lparr>name = a, channel = b, classic = (str_lower c = ''true'')\<rparr> \<and>
     Snap_from_str (a @ '':'' @ b @ '':'' @ c @ '':'' @ rest) =
       Snap_from_str (a @ '':'' @ b @ '':'' @ c) \<and>
     4 \<le> length (str_split CHR '':'' (a @ '':'' @ b @ '':'' @ c @ '':'' @ rest))"
proof
  assume h: "CHR '':'' \<notin> set a \<and> CHR '':'' \<notin> set b \<and> CHR '':'' \<notin> set c"
  then have long: "str_split CHR '':'' (c @ '':'' @ rest) = c # str_split CHR '':'' rest"
    and short: "str_split CHR '':'' c = [c]"
    using str_split_field [of "CHR '':''" c rest] by (simp_all add: str_split_single)
  from h long have 1: "Snap_from_str (a @ '':'' @ b @ '':'' @ c @ '':'' @ rest) =
       Inr \<lparr>name = a, channel = b, classic = (str_lower c = ''true'')\<rparr>"
    using from_str_three_or_more [of a b "c @ '':'' @ rest" c "str_split CHR '':'' rest"]
    by simp
  from h short have 2: "Snap_from_str (a @ '':'' @ b @ '':'' @ c) =
       Inr \<lparr>name = a, channel = b, classic = (str_lower c = ''true'')\<rparr>"
    using from_str_three_or_more [of a b c c "[]"] by simp
  from h long have "str_split CHR '':'' (a @ '':'' @ b @ '':'' @ c @ '':'' @ rest) =
      a # b # c # str_split CHR '':'' rest"
    using split_leading_fields [of a b "c @ '':'' @ rest"] by simp
  then have 3: "4 \<le> length (str_split CHR '':'' (a @ '':'' @ b @ '':'' @ c @ '':'' @ rest))"
    using str_split_not_Nil [of "CHR '':''" rest]
    by (cases "str_split CHR '':'' rest") simp_all
  from 1 2 3 show "Snap_from_str (a @ '':'' @ b @ '':'' @ c @ '':'' @ rest) =
       Inr \<lparr>name = a, channel = b, classic = (str_lower c = ''true'')\<rparr> \<and>
     Snap_from_str (a @ '':'' @ b @ '':'' @ c @ '':'' @ rest) =
       Snap_from_str (a @ '':'' @ b @ '':'' @ c) \<and>
     4 \<le> length (str_split CHR '':'' (a @ '':'' @ b @ '':'' @ c @ '':'' @ rest))"
    by simp
qed

theorem Snap_from_str_ignores_extra_fields_witness:
  "Snap_from_str ''lxd:5.21/stable:true:extra:fields'' =
     Inr \<lparr>name = ''lxd'', channel = ''5.21/stable'', classic = True\<rparr> \<and>
   Snap_from_str ''lxd:5.21/stable:true:extra:fields'' = Snap_from_str ''lxd:5.21/stable:true''"
  using Snap_from_str_ignores_extra_fields
    [of "''lxd''" "''5.21/stable''" "''true''" "''extra:fields''"]
  by (simp add: Snap_from_str_def str_lower_def char_lower_def ascii_uppercase_def ascii_lowercase_def)

section \<open>Properties of errors.py\<close>

lemma exc_class_UNIV: "c = Exception \<or> c \<in> set errors_classes"
  by (cases c) (simp_all add: errors_classes_def)



















section \<open>Properties of the openstack-builder module\<close>


lemma snapshot_call_raises:
  "call_create_image_snapshot api [ArgStr image_name] c = (Inl TypeError, c)"
  by (simp add: call_create_image_snapshot_def create_image_snapshot_required_def)

lemma openstack_builder_run_raises:
  "\<exists>e. fst (openstack_builder_run api arch base cloud_name flavor network runner_version
     image_name c0) = Inl e"
  by (simp add: openstack_builder_run_def Let_def snapshot_call_raises
      split: prod.splits sum.splits)




section \<open>Properties of cli.py\<close>

lemma ImageConfig_init_unexpected_keyword:
  "k \<in> fst ` set kwargs \<Longrightarrow> k \<notin> set ImageConfig_fields \<Longrightarrow> ImageConfig_init kwargs = Inl TypeError"
  by (auto simp: ImageConfig_init_def bind_keywords_def list_all_iff)

lemma ImageConfig_init_missing_field:
  "p \<in> set ImageConfig_fields \<Longrightarrow> p \<notin> fst ` set kwargs \<Longrightarrow> ImageConfig_init kwargs = Inl TypeError"
  by (auto simp: ImageConfig_init_def bind_keywords_def list_all_iff)

lemma run_build_local_raises:
  "\<not> arg_experimental_external a \<Longrightarrow> \<exists>e. run_build env a = (Inl e, [])"
  by (simp add: run_build_def ImageConfig_init_def bind_keywords_def ImageConfig_fields_def
      split: sum.splits option.splits)

text \<open>
  The callback step on its own (lines 259 to 261): with no script, or an empty one,
  nothing is executed; with a script, it is executed once with the image ids as its
  only argument, and \<^verbatim>\<open>subprocess.check_call\<close> raises on every exit status but 0.
\<close>

lemma run_callback_exit_status:
  "run_callback env None image_ids = (Inr (), []) \<and>
   (script \<noteq> [] \<longrightarrow>
      snd (run_callback env (Some script) image_ids) = [Exec [script, image_ids]]) \<and>
   (script \<noteq> [] \<and> spawn env [script, image_ids] = Exited 0 \<longrightarrow>
      fst (run_callback env (Some script) image_ids) = Inr ()) \<and>
   (script \<noteq> [] \<and> spawn env [script, image_ids] = Exited rc \<and> rc \<noteq> 0 \<longrightarrow>
      fst (run_callback env (Some script) image_ids) = Inl (CalledProcessError rc))"
  by (auto simp: run_callback_def check_call_def split: proc_result.splits sum.splits)





text \<open>
  C10. On the local path the command always raises and never starts a build: no call
  of the builder, no echo and no callback happen. The keywords that \<^verbatim>\<open>run\<close> passes to
  \<open>ImageConfig\<close> raise \<^verbatim>\<open>TypeError\<close> whatever their values, and either defect alone does:
  a keyword \<open>juju\<close>, which is no field, or no keyword for the field \<open>snaps\<close>. When the
  architecture and the base image resolve, \<^verbatim>\<open>TypeError\<close> is what the command raises.
\<close>

theorem run_local_always_raises:
  "(\<not> arg_experimental_external a \<longrightarrow> (\<exists>e. run env a = (Inl e, []))) \<and>
   (\<not> arg_experimental_external a \<and>
    (arg_arch a \<noteq> None \<or> machine env \<in> {''aarch64'', ''arm64'', ''x86_64''}) \<and>
    arg_base_image a \<in> set BASE_CHOICES \<longrightarrow> run env a = (Inl TypeError, [])) \<and>
   ImageConfig_init [(''arch'', x), (''base'', y), (''juju'', j), (''runner_version'', r),
     (''name'', n)] = Inl TypeError \<and>
   (''juju'' \<in> fst ` set kwargs \<longrightarrow> ImageConfig_init kwargs = Inl TypeError) \<and>
   (''snaps'' \<notin> fst ` set kwargs \<longrightarrow> ImageConfig_init kwargs = Inl TypeError)"
proof (intro conjI impI)
  assume "\<not> arg_experimental_external a"
  from run_build_local_raises [OF this, of env]
  show "\<exists>e. run env a = (Inl e, [])" by (auto simp: run_def)
next
  assume h: "\<not> arg_experimental_external a \<and>
    (arg_arch a \<noteq> None \<or> machine env \<in> {''aarch64'', ''arm64'', ''x86_64''}) \<and>
    arg_base_image a \<in> set BASE_CHOICES"
  then obtain arch where arch:
    "(case arg_arch a of Some given \<Rightarrow> Inr given | None \<Rightarrow> get_supported_arch (machine env)) =
       Inr arch"
    by (cases "arg_arch a")
      (auto simp: get_supported_arch_def ARCHITECTURES_ARM64_def ARCHITECTURES_X86_def)
  from h obtain base where base: "BaseImage_from_str (arg_base_image a) = Inr base"
    by (auto simp: BASE_CHOICES_def LTS_IMAGE_VERSION_TAG_MAP_def BaseImage_from_str_def
        BaseImage_call_def)
  from h arch base have "run_build env a = (Inl TypeError, [])"
    by (simp add: run_build_def ImageConfig_init_def bind_keywords_def ImageConfig_fields_def)
  then show "run env a = (Inl TypeError, [])" by (simp add: run_def)
next
  show "ImageConfig_init [(''arch'', x), (''base'', y), (''juju'', j), (''runner_version'', r),
     (''name'', n)] = Inl TypeError"
    by (simp add: ImageConfig_init_def bind_keywords_def ImageConfig_fields_def)
next
  assume "''juju'' \<in> fst ` set kwargs"
  then show "ImageConfig_init kwargs = Inl TypeError"
    by (rule ImageConfig_init_unexpected_keyword) (simp add: ImageConfig_fields_def)
next
  assume "''snaps'' \<notin> fst ` set kwargs"
  then show "ImageConfig_init kwargs = Inl TypeError"
    by (rule ImageConfig_init_missing_field [rotated]) (simp add: ImageConfig_fields_def)
qed

theorem run_local_always_raises_witness:
  "\<not> arg_experimental_external local_args \<and>
   arg_base_image local_args \<in> set BASE_CHOICES \<and>
   machine passing_callback_env \<in> {''aarch64'', ''arm64'', ''x86_64''} \<and>
   run passing_callback_env local_args = (Inl TypeError, [])"
  using run_local_always_raises [of local_args passing_callback_env]
  by (simp add: local_args_def passing_callback_env_def BASE_CHOICES_def
      LTS_IMAGE_VERSION_TAG_MAP_def)

end
